theory Spec2Isabelle
  imports Main "HOL-Library.Log_Nat" "HOL-Library.Sublist"
begin

section \<open>JavaScript values\<close>

text \<open>
  Strings are lists of characters. Isabelle's \<^typ>\<open>char\<close> has eight bits, so the embedding
  covers the strings whose UTF-16 code units are below 256; every operation of the sitemap
  code that is embedded here inspects only ASCII characters and copies all others.

  A JavaScript number is an IEEE 754 binary64 value. A finite one is represented by the
  rational number it denotes exactly; \<open>NaN\<close> and the two infinities are separate
  constructors. The sign of zero is not represented: no operation of the embedded code
  tells \<open>-0\<close> from \<open>+0\<close>.
\<close>

datatype jsnum = Fin rat | NaN | PosInf | NegInf

text \<open>A value that the code threw: an \<open>Error\<close> instance with its message, or anything else.\<close>

datatype thrown = ErrorObj string | OtherValue string

subsection \<open>Binary64 rounding\<close>

definition pow2 :: "int \<Rightarrow> rat" where
  "pow2 e = (if 0 \<le> e then 2 ^ nat e else 1 / 2 ^ nat (- e))"

definition round_half_even :: "rat \<Rightarrow> int" where
  "round_half_even q =
     (let f = \<lfloor>q\<rfloor>; r = q - of_int f
      in if r < 1 / 2 then f else if 1 / 2 < r then f + 1 else if even f then f else f + 1)"

text \<open>For \<open>0 < q\<close>, the integer \<open>e\<close> with \<open>2 ^ e \<le> q < 2 ^ (e + 1)\<close>.\<close>

definition binary_exponent :: "rat \<Rightarrow> int" where
  "binary_exponent q =
     (if 1 \<le> q then int (floorlog 2 (nat \<lfloor>q\<rfloor>)) - 1
      else - int (floorlog 2 (nat (\<lceil>1 / q\<rceil> - 1))))"

text \<open>
  Round-to-nearest, ties-to-even, with a 53 bit significand and gradual underflow. The
  result is exact for every real number of magnitude below \<open>2 ^ 1024\<close>; overflow to an
  infinity is not represented (the embedded code only adds numbers below 2).
\<close>

definition d64_pos :: "rat \<Rightarrow> rat" where
  "d64_pos q =
     (let u = pow2 (max (binary_exponent q - 52) (- 1074))
      in of_int (round_half_even (q / u)) * u)"

definition d64 :: "rat \<Rightarrow> rat" where
  "d64 q = (if q = 0 then 0 else if 0 < q then d64_pos q else - d64_pos (- q))"

text \<open>The JavaScript sum \<open>x + y\<close> of two finite numbers.\<close>

definition js_add :: "rat \<Rightarrow> rat \<Rightarrow> rat" where
  "js_add x y = d64 (x + y)"

text \<open>\<open>x > c\<close> and \<open>x >= c\<close> for a number \<open>x\<close> and a finite constant \<open>c\<close>.\<close>

fun js_gt :: "jsnum \<Rightarrow> rat \<Rightarrow> bool" where
  "js_gt (Fin x) c = (c < x)"
| "js_gt NaN c = False"
| "js_gt PosInf c = True"
| "js_gt NegInf c = False"

fun js_ge :: "jsnum \<Rightarrow> rat \<Rightarrow> bool" where
  "js_ge (Fin x) c = (c \<le> x)"
| "js_ge NaN c = False"
| "js_ge PosInf c = True"
| "js_ge NegInf c = False"

text \<open>
  \<open>Number(v) || 0\<close> for a field \<open>v\<close> that holds a number or \<open>null\<close> (\<open>None\<close>):
  \<open>Number(null)\<close> is 0, and \<open>NaN\<close> and 0 are falsy.
\<close>

fun number_or_zero :: "jsnum option \<Rightarrow> jsnum" where
  "number_or_zero None = Fin 0"
| "number_or_zero (Some NaN) = Fin 0"
| "number_or_zero (Some x) = x"

text \<open>Truthiness of a string that may be \<open>null\<close> or \<open>undefined\<close> (\<open>None\<close>).\<close>

fun truthy :: "string option \<Rightarrow> bool" where
  "truthy None = False"
| "truthy (Some s) = (s \<noteq> [])"

text \<open>\<open>a || b\<close> on such strings.\<close>

definition js_or :: "string option \<Rightarrow> string option \<Rightarrow> string option" where
  "js_or a b = (if truthy a then a else b)"

subsection \<open>Numbers as text\<close>

text \<open>The decimal digits of a natural number.\<close>

fun dec :: "nat \<Rightarrow> string" where
  "dec n = (if n < 10 then [''0123456789'' ! n]
            else dec (n div 10) @ [''0123456789'' ! (n mod 10)])"

definition pow10 :: "int \<Rightarrow> rat" where
  "pow10 e = (if 0 \<le> e then 10 ^ nat e else 1 / 10 ^ nat (- e))"

text \<open>For \<open>0 < q\<close>, the integer \<open>n\<close> with \<open>10 ^ (n - 1) \<le> q < 10 ^ n\<close>.\<close>

definition decimal_exponent :: "rat \<Rightarrow> int" where
  "decimal_exponent q =
     (if 1 \<le> q then int (floorlog 10 (nat \<lfloor>q\<rfloor>))
      else 1 - int (floorlog 10 (nat (\<lceil>1 / q\<rceil> - 1))))"

text \<open>
  \<open>Number::toString\<close> of ECMAScript, step 5: the decimal \<open>s * 10 ^ e\<close> with the fewest
  digits \<open>k\<close> that rounds to the number \<open>x\<close>, the closest one if there are several. For
  \<open>k\<close> digits only the two neighbours of \<open>x\<close> on the grid \<open>10 ^ (n - k)\<close> can round to it.
  Seventeen digits always suffice, so the search starts with fuel 16 at \<open>k = 1\<close>.
\<close>

fun shortest_decimal :: "nat \<Rightarrow> rat \<Rightarrow> int \<Rightarrow> nat \<Rightarrow> int \<times> int" where
  "shortest_decimal fuel x n k =
     (let e = n - int k;
          lo = \<lfloor>x / pow10 e\<rfloor>;
          hi = lo + 1;
          okLo = (d64 (of_int lo * pow10 e) = x);
          okHi = (d64 (of_int hi * pow10 e) = x);
          dLo = x - of_int lo * pow10 e;
          dHi = of_int hi * pow10 e - x;
          nearest = (if dLo < dHi then lo else if dHi < dLo then hi
                     else if even lo then lo else hi)
      in case fuel of
           0 \<Rightarrow> (nearest, e)
         | Suc fuel' \<Rightarrow>
             if okLo \<and> okHi then (nearest, e)
             else if okLo then (lo, e)
             else if okHi then (hi, e)
             else shortest_decimal fuel' x n (Suc k))"

definition strip_zeros :: "string \<Rightarrow> string" where
  "strip_zeros s = rev (dropWhile (\<lambda>c. c = CHR ''0'') (rev s))"

text \<open>\<open>Number::toString\<close>, steps 6 to 10, for a positive finite number.\<close>

definition number_to_string_pos :: "rat \<Rightarrow> string" where
  "number_to_string_pos x =
     (let (s, e) = shortest_decimal 16 x (decimal_exponent x) 1;
          all = dec (nat s);
          n = int (length all) + e;
          ds = strip_zeros all;
          k = int (length ds)
      in if k \<le> n \<and> n \<le> 21 then ds @ replicate (nat (n - k)) CHR ''0''
         else if 0 < n \<and> n \<le> 21 then take (nat n) ds @ ''.'' @ drop (nat n) ds
         else if - 6 < n \<and> n \<le> 0 then ''0.'' @ replicate (nat (- n)) CHR ''0'' @ ds
         else (let ex = (if 0 \<le> n - 1 then ''+'' else ''-'') @ dec (nat \<bar>n - 1\<bar>)
               in if k = 1 then ds @ ''e'' @ ex
                  else take 1 ds @ ''.'' @ drop 1 ds @ ''e'' @ ex))"

text \<open>The text of a number in a template literal: \<open>`${x}`\<close>.\<close>

fun number_to_string :: "jsnum \<Rightarrow> string" where
  "number_to_string NaN = ''NaN''"
| "number_to_string PosInf = ''Infinity''"
| "number_to_string NegInf = ''-Infinity''"
| "number_to_string (Fin q) =
     (if q = 0 then ''0''
      else if q < 0 then ''-'' @ number_to_string_pos (- q)
      else number_to_string_pos q)"

text \<open>
  \<open>x.toFixed(1)\<close>: the integer \<open>n\<close> nearest to \<open>10 * x\<close>, the larger one on a tie, printed
  with a point before its last digit; the default text for a number that is not finite or
  is at least \<open>10 ^ 21\<close>.
\<close>

fun toFixed1 :: "jsnum \<Rightarrow> string" where
  "toFixed1 NaN = ''NaN''"
| "toFixed1 PosInf = ''Infinity''"
| "toFixed1 NegInf = ''-Infinity''"
| "toFixed1 (Fin q) =
     (let s = (if q < 0 then ''-'' else []);
          x = \<bar>q\<bar>
      in if 10 ^ 21 \<le> x then s @ number_to_string_pos x
         else
           (let n = nat \<lfloor>x * 10 + 1 / 2\<rfloor>;
                m = (if n < 10 then ''0'' @ dec n else dec n)
            in s @ butlast m @ ''.'' @ [last m]))"

section \<open>The platform\<close>

text \<open>
  What the code reads from the \<open>Date\<close> built-in, taken as parameters:
  \<^item> \<open>date_parse s\<close> is the time value of \<open>new Date(s)\<close> in milliseconds, \<open>None\<close> for an
    invalid date (time value \<open>NaN\<close>);
  \<^item> \<open>months_ago k\<close> is the time value of \<open>d\<close> after
    \<open>const d = new Date(); d.setMonth(d.getMonth() - k)\<close>;
  \<^item> \<open>today_iso\<close> is \<open>new Date().toISOString().split('T')[0]\<close>;
  \<^item> \<open>iso_day s\<close> is \<open>new Date(s).toISOString().split('T')[0]\<close>, or the \<open>RangeError\<close>
    that \<open>toISOString\<close> throws on an invalid date;
  \<^item> \<open>full_year s\<close> is the text of \<open>new Date(s).getFullYear()\<close> in a template literal.
\<close>

record platform =
  date_parse :: "string \<Rightarrow> int option"
  months_ago :: "nat \<Rightarrow> int"
  today_iso :: string
  iso_day :: "string \<Rightarrow> thrown + string"
  full_year :: "string \<Rightarrow> string"

text \<open>\<open>itemDate > limit\<close> on \<open>Date\<close> objects compares time values; \<open>NaN\<close> compares false.\<close>

fun date_after :: "int option \<Rightarrow> int \<Rightarrow> bool" where
  "date_after None limit = False"
| "date_after (Some t) limit = (limit < t)"

section \<open>Content records\<close>

text \<open>
  The rows of the \<open>movies\<close> and \<open>tv_shows\<close> tables as the queries select them. A column
  that is \<open>NULL\<close> in the store is \<open>None\<close>.
\<close>

record movie =
  movie_id :: int
  movie_slug :: "string option"
  movie_title :: "string option"
  movie_original_title :: "string option"
  movie_popularity :: "jsnum option"
  movie_vote_average :: "jsnum option"
  movie_release_date :: "string option"
  movie_updated_at :: "string option"
  movie_poster_path :: "string option"
  movie_backdrop_path :: "string option"

record tvshow =
  tv_id :: int
  tv_slug :: "string option"
  tv_name :: "string option"
  tv_original_name :: "string option"
  tv_popularity :: "jsnum option"
  tv_vote_average :: "jsnum option"
  tv_first_air_date :: "string option"
  tv_in_production :: "bool option"
  tv_updated_at :: "string option"
  tv_poster_path :: "string option"
  tv_backdrop_path :: "string option"

datatype item = Movie movie | TVShow tvshow

text \<open>
  Property reads on an item. A row of one table has no property of the other table's
  columns: reading it gives \<open>undefined\<close>, which is \<open>None\<close> as well.
\<close>

fun item_popularity :: "item \<Rightarrow> jsnum option" where
  "item_popularity (Movie m) = movie_popularity m"
| "item_popularity (TVShow t) = tv_popularity t"

fun item_vote_average :: "item \<Rightarrow> jsnum option" where
  "item_vote_average (Movie m) = movie_vote_average m"
| "item_vote_average (TVShow t) = tv_vote_average t"

fun item_release_date :: "item \<Rightarrow> string option" where
  "item_release_date (Movie m) = movie_release_date m"
| "item_release_date (TVShow t) = None"

fun item_first_air_date :: "item \<Rightarrow> string option" where
  "item_first_air_date (Movie m) = None"
| "item_first_air_date (TVShow t) = tv_first_air_date t"

fun item_in_production :: "item \<Rightarrow> bool option" where
  "item_in_production (Movie m) = None"
| "item_in_production (TVShow t) = tv_in_production t"

text \<open>\<open>'release_date' in item\<close> and \<open>'in_production' in item\<close>.\<close>

fun has_release_date :: "item \<Rightarrow> bool" where
  "has_release_date (Movie m) = True"
| "has_release_date (TVShow t) = False"

fun has_in_production :: "item \<Rightarrow> bool" where
  "has_in_production (Movie m) = False"
| "has_in_production (TVShow t) = True"

text \<open>The same record with another popularity: for comparing records that differ in it only.\<close>

fun set_popularity :: "jsnum option \<Rightarrow> item \<Rightarrow> item" where
  "set_popularity p (Movie m) = Movie (m\<lparr>movie_popularity := p\<rparr>)"
| "set_popularity p (TVShow t) = TVShow (t\<lparr>tv_popularity := p\<rparr>)"

datatype changefreq = Always | Hourly | Daily | Weekly | Monthly | Yearly | Never

section \<open>Priority Ranker and Change-Frequency Classifier\<close>

subsection \<open>Server side: \<open>supabase/functions/generate-sitemaps/index.ts\<close>\<close>

definition calculatePriority :: "platform \<Rightarrow> item \<Rightarrow> rat" where
  "calculatePriority pf item =
     (let popularity = number_or_zero (item_popularity item);
          voteAverage = number_or_zero (item_vote_average item);
          priority1 =
            (if js_gt popularity 100 then d64 (9 / 10)
             else if js_gt popularity 50 then d64 (85 / 100)
             else if js_gt popularity 20 then d64 (75 / 100)
             else if js_gt popularity 10 then d64 (65 / 100)
             else d64 (6 / 10));
          priority2 =
            (if js_ge voteAverage 8 then min 1 (js_add priority1 (d64 (5 / 100)))
             else priority1);
          releaseDate =
            (if has_release_date item then item_release_date item
             else item_first_air_date item);
          priority3 =
            (case releaseDate of
               None \<Rightarrow> priority2
             | Some s \<Rightarrow>
                 if s = [] then priority2
                 else if date_after (date_parse pf s) (months_ago pf 6)
                   then min 1 (js_add priority2 (d64 (5 / 100)))
                   else priority2)
      in min 1 (max (d64 (5 / 10)) priority3))"

definition calculateChangefreq :: "platform \<Rightarrow> item \<Rightarrow> changefreq" where
  "calculateChangefreq pf item =
     (if has_in_production item \<and> item_in_production item = Some True then Weekly
      else
        (let releaseDate =
               (if has_release_date item then item_release_date item
                else item_first_air_date item)
         in case releaseDate of
              None \<Rightarrow> Monthly
            | Some s \<Rightarrow>
                if s \<noteq> [] \<and> date_after (date_parse pf s) (months_ago pf 3) then Weekly
                else Monthly))"

subsection \<open>Browser side: \<open>src/lib/sitemap.ts\<close>\<close>

definition calculatePriority_browser :: "platform \<Rightarrow> item \<Rightarrow> rat" where
  "calculatePriority_browser pf item =
     (let popularity = number_or_zero (item_popularity item);
          voteAverage = number_or_zero (item_vote_average item);
          priority1 =
            (if js_gt popularity 100 then d64 (9 / 10)
             else if js_gt popularity 50 then d64 (85 / 100)
             else if js_gt popularity 20 then d64 (75 / 100)
             else if js_gt popularity 10 then d64 (65 / 100)
             else d64 (6 / 10));
          priority2 =
            (if js_ge voteAverage 8 then min 1 (js_add priority1 (d64 (5 / 100)))
             else priority1);
          releaseDate = js_or (item_release_date item) (item_first_air_date item);
          priority3 =
            (case releaseDate of
               None \<Rightarrow> priority2
             | Some s \<Rightarrow>
                 if s = [] then priority2
                 else if date_after (date_parse pf s) (months_ago pf 6)
                   then min 1 (js_add priority2 (d64 (5 / 100)))
                   else priority2)
      in min 1 (max (d64 (5 / 10)) priority3))"

definition calculateChangefreq_browser :: "platform \<Rightarrow> item \<Rightarrow> changefreq" where
  "calculateChangefreq_browser pf item =
     (if item_in_production item = Some True then Weekly
      else
        (let releaseDate = js_or (item_release_date item) (item_first_air_date item)
         in case releaseDate of
              None \<Rightarrow> Monthly
            | Some s \<Rightarrow>
                if s \<noteq> [] \<and> date_after (date_parse pf s) (months_ago pf 3) then Weekly
                else Monthly))"

section \<open>Alternate-Link Builder\<close>

record alternate =
  hreflang :: string
  href :: string

definition SUPPORTED_LANGUAGES :: "string list" where
  "SUPPORTED_LANGUAGES =
     [''en'', ''tr'', ''de'', ''fr'', ''es'', ''it'', ''pt'', ''ru'', ''ja'', ''ko'', ''zh'']"

definition BASE_URL :: string where
  "BASE_URL = ''https://www.tvshowup.com''"

text \<open>
  The builder over a language list and a base URL. The server-side function uses the
  two constants above. The browser-side method imports its language list from
  \<open>./utils\<close>, which is not among the sources, and reads the base URL from the generator
  object: both are parameters there.
\<close>

definition alternates_for :: "string list \<Rightarrow> string \<Rightarrow> string \<Rightarrow> alternate list" where
  "alternates_for langs baseUrl path =
     map (\<lambda>lang. \<lparr>hreflang = lang, href = baseUrl @ ''/'' @ lang @ path\<rparr>) langs
     @ [\<lparr>hreflang = ''x-default'', href = baseUrl @ ''/en'' @ path\<rparr>]"

definition generateAlternates :: "string \<Rightarrow> alternate list" where
  "generateAlternates path = alternates_for SUPPORTED_LANGUAGES BASE_URL path"

definition generateAlternates_browser :: "string list \<Rightarrow> string \<Rightarrow> string \<Rightarrow> alternate list" where
  "generateAlternates_browser langs baseUrl path = alternates_for langs baseUrl path"

section \<open>XML URL Serializer\<close>

record image =
  img_loc :: "string option"
  img_title :: "string option"
  img_caption :: "string option"

text \<open>
  The value object \<open>SitemapUrl\<close>. An optional property that is absent is \<open>None\<close>. The
  location and the texts of an image are strings by their declared type; they are options
  here so that a location that is \<open>null\<close> or \<open>undefined\<close> at run time can be given.
\<close>

record sitemap_url =
  loc :: "string option"
  lastmod :: "string option"
  changefreq :: "changefreq option"
  priority :: "jsnum option"
  alternates :: "alternate list option"
  images :: "image list option"

fun changefreq_text :: "changefreq \<Rightarrow> string" where
  "changefreq_text Always = ''always''"
| "changefreq_text Hourly = ''hourly''"
| "changefreq_text Daily = ''daily''"
| "changefreq_text Weekly = ''weekly''"
| "changefreq_text Monthly = ''monthly''"
| "changefreq_text Yearly = ''yearly''"
| "changefreq_text Never = ''never''"

text \<open>\<open>str.replace(/c/g, r)\<close> for a single character \<open>c\<close> and a replacement without \<open>$\<close>.\<close>

fun replace_all :: "char \<Rightarrow> string \<Rightarrow> string \<Rightarrow> string" where
  "replace_all c r [] = []"
| "replace_all c r (x # xs) =
     (if x = c then r @ replace_all c r xs else x # replace_all c r xs)"

text \<open>
  Appending the texts of a sequence of evaluations, each of which may throw: the first
  throw ends the sequence. \<open>collect\<close> gives the whole text or the thrown value;
  \<open>collect_partial\<close> gives the text appended before the throw as well.
\<close>

fun collect :: "(thrown + string) list \<Rightarrow> thrown + string" where
  "collect [] = Inr []"
| "collect (Inl e # rs) = Inl e"
| "collect (Inr x # rs) = (case collect rs of Inl e \<Rightarrow> Inl e | Inr y \<Rightarrow> Inr (x @ y))"


subsection \<open>Server side\<close>

definition escapeXml :: "string option \<Rightarrow> string" where
  \<open>escapeXml str =
     (case str of
        None \<Rightarrow> []
      | Some s \<Rightarrow>
          if s = [] then []
          else replace_all (CHR 0x27) ''&apos;''
                (replace_all (CHR ''"'') ''&quot;''
                  (replace_all (CHR ''>'') ''&gt;''
                    (replace_all (CHR ''<'') ''&lt;''
                      (replace_all (CHR ''&'') ''&amp;'' s)))))\<close>

definition generateXmlUrl :: "sitemap_url \<Rightarrow> string" where
  \<open>generateXmlUrl url =
     ''  <url>\<newline>''
     @ ''    <loc>'' @ escapeXml (loc url) @ ''</loc>\<newline>''
     @ (case lastmod url of
          None \<Rightarrow> []
        | Some d \<Rightarrow> if d = [] then [] else ''    <lastmod>'' @ d @ ''</lastmod>\<newline>'')
     @ (case changefreq url of
          None \<Rightarrow> []
        | Some f \<Rightarrow> ''    <changefreq>'' @ changefreq_text f @ ''</changefreq>\<newline>'')
     @ (case priority url of
          None \<Rightarrow> []
        | Some p \<Rightarrow> ''    <priority>'' @ toFixed1 p @ ''</priority>\<newline>'')
     @ (case alternates url of
          None \<Rightarrow> []
        | Some alts \<Rightarrow>
            if length alts > 0
            then concat (map (\<lambda>alt.
                   ''    <xhtml:link rel="alternate" hreflang="'' @ hreflang alt
                   @ ''" href="'' @ escapeXml (Some (href alt)) @ ''" />\<newline>'') alts)
            else [])
     @ (case images url of
          None \<Rightarrow> []
        | Some imgs \<Rightarrow>
            if length imgs > 0
            then concat (map (\<lambda>img.
                   ''    <image:image>\<newline>''
                   @ ''      <image:loc>'' @ escapeXml (img_loc img) @ ''</image:loc>\<newline>''
                   @ (if truthy (img_title img)
                      then ''      <image:title>'' @ escapeXml (img_title img)
                           @ ''</image:title>\<newline>''
                      else [])
                   @ (if truthy (img_caption img)
                      then ''      <image:caption>'' @ escapeXml (img_caption img)
                           @ ''</image:caption>\<newline>''
                      else [])
                   @ ''    </image:image>\<newline>'') imgs)
            else [])
     @ ''  </url>\<newline>''\<close>

subsection \<open>Browser side\<close>

text \<open>
  The browser-side helper has no guard: \<open>str.replace\<close> on \<open>null\<close> or \<open>undefined\<close> throws a
  \<open>TypeError\<close>, whose message (it names \<open>null\<close> or \<open>undefined\<close>, and its wording is the
  browser's) is abbreviated to \<open>TypeError\<close>. Its value object has no images, and the
  priority is printed by the template literal.
\<close>

definition escapeXml_browser :: "string option \<Rightarrow> thrown + string" where
  \<open>escapeXml_browser str =
     (case str of
        None \<Rightarrow> Inl (ErrorObj ''TypeError'')
      | Some s \<Rightarrow>
          Inr (replace_all (CHR 0x27) ''&apos;''
                (replace_all (CHR ''"'') ''&quot;''
                  (replace_all (CHR ''>'') ''&gt;''
                    (replace_all (CHR ''<'') ''&lt;''
                      (replace_all (CHR ''&'') ''&amp;'' s))))))\<close>

definition generateXmlUrl_browser :: "sitemap_url \<Rightarrow> thrown + string" where
  \<open>generateXmlUrl_browser url =
     (case escapeXml_browser (loc url) of
        Inl e \<Rightarrow> Inl e
      | Inr l \<Rightarrow>
          (case (case alternates url of
                   None \<Rightarrow> Inr []
                 | Some alts \<Rightarrow>
                     if length alts > 0
                     then collect (map (\<lambda>alt.
                            case escapeXml_browser (Some (href alt)) of
                              Inl e \<Rightarrow> Inl e
                            | Inr h \<Rightarrow>
                                Inr (''    <xhtml:link rel="alternate" hreflang="''
                                     @ hreflang alt @ ''" href="'' @ h @ ''" />\<newline>'')) alts)
                     else Inr []) of
             Inl e \<Rightarrow> Inl e
           | Inr links \<Rightarrow>
               Inr (''  <url>\<newline>''
                    @ ''    <loc>'' @ l @ ''</loc>\<newline>''
                    @ (case lastmod url of
                         None \<Rightarrow> []
                       | Some d \<Rightarrow>
                           if d = [] then []
                           else ''    <lastmod>'' @ d @ ''</lastmod>\<newline>'')
                    @ (case changefreq url of
                         None \<Rightarrow> []
                       | Some f \<Rightarrow>
                           ''    <changefreq>'' @ changefreq_text f @ ''</changefreq>\<newline>'')
                    @ (case priority url of
                         None \<Rightarrow> []
                       | Some p \<Rightarrow>
                           ''    <priority>'' @ number_to_string p @ ''</priority>\<newline>'')
                    @ links
                    @ ''  </url>\<newline>'')))\<close>

section \<open>The data store, the metadata API and the console\<close>

text \<open>
  A query of the store client as the assemblers build it:
  \<open>from(t).select(cols).not(col, 'is', null).order(col', {ascending: false}).limit(n)\<close>.
\<close>

record store_query =
  q_from :: string
  q_select :: string
  q_not_null :: string
  q_order_desc :: string
  q_limit :: nat

text \<open>
  The awaited query settles to an object with the properties \<open>data\<close> and \<open>error\<close>, or it
  rejects with a thrown value. The store is a parameter: it answers a query on the movies
  table and a query on the TV-shows table.
\<close>

record 'r reply =
  reply_data :: "'r list option"
  reply_error :: "thrown option"

record store =
  movies_rows :: "store_query \<Rightarrow> thrown + movie reply"
  tv_rows :: "store_query \<Rightarrow> thrown + tvshow reply"

record person =
  person_id :: jsnum
  person_name :: "string option"
  person_profile_path :: "string option"
  person_popularity :: "jsnum option"
  person_known_for_department :: "string option"

text \<open>
  The response of \<open>fetch\<close>: its \<open>ok\<close> flag, its status text, and what
  \<open>(await response.json()).results\<close> evaluates to: a thrown value, or the list of
  results, \<open>None\<close> when the body has no such property. The metadata API is a parameter:
  it maps the requested address to a response, or rejects.
\<close>

record response =
  resp_ok :: bool
  resp_status_text :: string
  resp_results :: "thrown + person list option"

text \<open>What an assembler does besides returning: console output, queries and requests.\<close>

datatype event =
    LogError string thrown
  | LogErrorText string string
  | LogInfo string
  | Query store_query
  | Fetch string

text \<open>A string that may be \<open>null\<close>, in a template literal.\<close>

fun tpl :: "string option \<Rightarrow> string" where
  "tpl None = ''null''"
| "tpl (Some s) = s"


definition urlset_open_images :: string where
  \<open>urlset_open_images =
     ''<?xml version="1.0" encoding="UTF-8"?>\<newline>''
     @ ''<urlset xmlns="http://www.sitemaps.org/schemas/sitemap/0.9"\<newline>''
     @ ''        xmlns:xhtml="http://www.w3.org/1999/xhtml"\<newline>''
     @ ''        xmlns:image="http://www.google.com/schemas/sitemap-image/1.1">\<newline>''\<close>

text \<open>The queries and the requested addresses among the events, in order.\<close>

fun queries :: "event list \<Rightarrow> store_query list" where
  "queries [] = []"
| "queries (Query q # evs) = q # queries evs"
| "queries (ev # evs) = queries evs"

fun fetches :: "event list \<Rightarrow> string list" where
  "fetches [] = []"
| "fetches (Fetch a # evs) = a # fetches evs"
| "fetches (ev # evs) = fetches evs"

section \<open>Sitemap Assemblers, server side\<close>

definition TMDB_IMAGE_BASE :: string where
  "TMDB_IMAGE_BASE = ''https://image.tmdb.org/t/p/original''"

definition MAX_URLS_PER_SITEMAP :: nat where
  "MAX_URLS_PER_SITEMAP = 50000"

subsection \<open>Slugs of people\<close>

text \<open>
  \<open>toLowerCase\<close> on the letters A to Z. The characters from 128 to 255 are not letters
  of \<open>\w\<close>: the next step of the slug removes them whatever their case.
\<close>

definition to_lower :: "char \<Rightarrow> char" where
  "to_lower c =
     (let n = (of_char c :: nat)
      in if 65 \<le> n \<and> n \<le> 90 then char_of (n + 32) else c)"

text \<open>The classes \<open>\w\<close> and \<open>\s\<close> of a regular expression, on characters below 256.\<close>

definition word_char :: "char \<Rightarrow> bool" where
  "word_char c =
     (let n = (of_char c :: nat)
      in (48 \<le> n \<and> n \<le> 57) \<or> (65 \<le> n \<and> n \<le> 90) \<or> n = 95 \<or> (97 \<le> n \<and> n \<le> 122))"

definition space_char :: "char \<Rightarrow> bool" where
  "space_char c = ((of_char c :: nat) \<in> {9, 10, 11, 12, 13, 32, 160})"

text \<open>The characters that \<open>replace(/[^\w\s-]/g, '')\<close> keeps.\<close>

definition slug_char :: "char \<Rightarrow> bool" where
  "slug_char c = (word_char c \<or> space_char c \<or> c = CHR ''-'')"

text \<open>\<open>replace(/\s+/g, '-')\<close>: every maximal run of white space becomes one dash.\<close>

function spaces_to_dash :: "string \<Rightarrow> string" where
  "spaces_to_dash [] = []"
| "spaces_to_dash (c # cs) =
     (if space_char c then CHR ''-'' # spaces_to_dash (dropWhile space_char cs)
      else c # spaces_to_dash cs)"
  by pat_completeness auto
termination
  by (relation "measure length") (auto simp: less_Suc_eq_le length_dropWhile_le)

text \<open>\<open>replace(/-+/g, '-')\<close>: every maximal run of dashes becomes one dash.\<close>

function squeeze_dashes :: "string \<Rightarrow> string" where
  "squeeze_dashes [] = []"
| "squeeze_dashes (c # cs) =
     (if c = CHR ''-'' then CHR ''-'' # squeeze_dashes (dropWhile (\<lambda>d. d = CHR ''-'') cs)
      else c # squeeze_dashes cs)"
  by pat_completeness auto
termination
  by (relation "measure length") (auto simp: less_Suc_eq_le length_dropWhile_le)

text \<open>
  A name that is \<open>null\<close> (\<open>None\<close>) makes \<open>name.toLowerCase()\<close> throw a \<open>TypeError\<close>, with
  the message of the server's engine.
\<close>

definition createSlugFromName :: "jsnum \<Rightarrow> string option \<Rightarrow> thrown + string" where
  "createSlugFromName ident name =
     (case name of
        None \<Rightarrow> Inl (ErrorObj ''Cannot read properties of null (reading 'toLowerCase')'')
      | Some n \<Rightarrow>
          Inr (number_to_string ident @ ''-''
               @ take 50 (squeeze_dashes (spaces_to_dash (filter slug_char (map to_lower n))))))"


text \<open>The one query of the movies assembler and the one of the TV-shows assembler.\<close>

definition movies_query :: store_query where
  "movies_query =
     \<lparr>q_from = ''movies'',
      q_select = ''id, slug, title, original_title, popularity, vote_average, release_date, updated_at, poster_path, backdrop_path'',
      q_not_null = ''slug'',
      q_order_desc = ''popularity'',
      q_limit = MAX_URLS_PER_SITEMAP\<rparr>"

definition tvshows_query :: store_query where
  "tvshows_query =
     \<lparr>q_from = ''tv_shows'',
      q_select = ''id, slug, name, original_name, popularity, vote_average, first_air_date, in_production, updated_at, poster_path, backdrop_path'',
      q_not_null = ''slug'',
      q_order_desc = ''popularity'',
      q_limit = MAX_URLS_PER_SITEMAP\<rparr>"

text \<open>
  The body of the loop over the rows of a table: the entries of one record, one for each
  supported language. Evaluating the last-modified date throws on an invalid timestamp.
\<close>

definition movie_entries :: "platform \<Rightarrow> movie \<Rightarrow> (thrown + string) list" where
  \<open>movie_entries pf movie =
     (let path = ''/movie/'' @ tpl (movie_slug movie);
          priority = calculatePriority pf (Movie movie);
          changefreq = calculateChangefreq pf (Movie movie);
          images =
            (if truthy (movie_poster_path movie)
             then [\<lparr>img_loc = Some (TMDB_IMAGE_BASE @ tpl (movie_poster_path movie)),
                    img_title = js_or (movie_title movie) (movie_original_title movie),
                    img_caption = Some (tpl (movie_title movie) @ '' (''
                       @ (if truthy (movie_release_date movie)
                          then full_year pf (tpl (movie_release_date movie))
                          else [])
                       @ '') - Movie Poster'')\<rparr>]
             else [])
            @ (if truthy (movie_backdrop_path movie)
               then [\<lparr>img_loc = Some (TMDB_IMAGE_BASE @ tpl (movie_backdrop_path movie)),
                      img_title = js_or (movie_title movie) (movie_original_title movie),
                      img_caption = Some (tpl (movie_title movie) @ '' - Movie Backdrop'')\<rparr>]
               else [])
      in map (\<lambda>lang.
           case (if truthy (movie_updated_at movie)
                 then iso_day pf (tpl (movie_updated_at movie))
                 else Inr (today_iso pf)) of
             Inl e \<Rightarrow> Inl e
           | Inr day \<Rightarrow>
               Inr (generateXmlUrl
                 \<lparr>loc = Some (BASE_URL @ ''/'' @ lang @ path),
                  lastmod = Some day,
                  changefreq = Some changefreq,
                  priority = Some (Fin priority),
                  alternates = Some (generateAlternates path),
                  images = (if length images > 0 then Some images else None)\<rparr>))
           SUPPORTED_LANGUAGES)\<close>

definition generateMoviesSitemap :: "platform \<Rightarrow> store \<Rightarrow> event list \<times> (thrown + string)" where
  \<open>generateMoviesSitemap pf supabase =
     (let xml =
            urlset_open_images;
          q = movies_query
      in case movies_rows supabase q of
           Inl e \<Rightarrow> ([Query q, LogError ''Error generating movies sitemap:'' e], Inl e)
         | Inr r \<Rightarrow>
             (case reply_error r of
                Some err \<Rightarrow>
                  ([Query q, LogError ''Error fetching movies:'' err,
                    LogError ''Error generating movies sitemap:'' err], Inl err)
              | None \<Rightarrow>
                  (case reply_data r of
                     None \<Rightarrow> ([Query q], Inr (xml @ ''</urlset>''))
                   | Some movies \<Rightarrow>
                       if length movies > 0 then
                         (let started =
                                LogInfo (''Generating sitemap for ''
                                  @ number_to_string (Fin (of_nat (length movies)))
                                  @ '' movies'')
                          in case collect (concat (map (movie_entries pf) movies)) of
                               Inl e \<Rightarrow>
                                 ([Query q, started,
                                   LogError ''Error generating movies sitemap:'' e], Inl e)
                             | Inr body \<Rightarrow>
                                 ([Query q, started], Inr (xml @ body @ ''</urlset>'')))
                       else ([Query q], Inr (xml @ ''</urlset>'')))))\<close>

definition tvshow_entries :: "platform \<Rightarrow> tvshow \<Rightarrow> (thrown + string) list" where
  \<open>tvshow_entries pf show =
     (let path = ''/tv_show/'' @ tpl (tv_slug show);
          priority = calculatePriority pf (TVShow show);
          changefreq = calculateChangefreq pf (TVShow show);
          images =
            (if truthy (tv_poster_path show)
             then [\<lparr>img_loc = Some (TMDB_IMAGE_BASE @ tpl (tv_poster_path show)),
                    img_title = js_or (tv_name show) (tv_original_name show),
                    img_caption = Some (tpl (tv_name show) @ '' (''
                       @ (if truthy (tv_first_air_date show)
                          then full_year pf (tpl (tv_first_air_date show))
                          else [])
                       @ '') - TV Show Poster'')\<rparr>]
             else [])
            @ (if truthy (tv_backdrop_path show)
               then [\<lparr>img_loc = Some (TMDB_IMAGE_BASE @ tpl (tv_backdrop_path show)),
                      img_title = js_or (tv_name show) (tv_original_name show),
                      img_caption = Some (tpl (tv_name show) @ '' - TV Show Backdrop'')\<rparr>]
               else [])
      in map (\<lambda>lang.
           case (if truthy (tv_updated_at show)
                 then iso_day pf (tpl (tv_updated_at show))
                 else Inr (today_iso pf)) of
             Inl e \<Rightarrow> Inl e
           | Inr day \<Rightarrow>
               Inr (generateXmlUrl
                 \<lparr>loc = Some (BASE_URL @ ''/'' @ lang @ path),
                  lastmod = Some day,
                  changefreq = Some changefreq,
                  priority = Some (Fin priority),
                  alternates = Some (generateAlternates path),
                  images = (if length images > 0 then Some images else None)\<rparr>))
           SUPPORTED_LANGUAGES)\<close>

definition generateTVShowsSitemap :: "platform \<Rightarrow> store \<Rightarrow> event list \<times> (thrown + string)" where
  \<open>generateTVShowsSitemap pf supabase =
     (let xml =
            urlset_open_images;
          q = tvshows_query
      in case tv_rows supabase q of
           Inl e \<Rightarrow> ([Query q, LogError ''Error generating TV shows sitemap:'' e], Inl e)
         | Inr r \<Rightarrow>
             (case reply_error r of
                Some err \<Rightarrow>
                  ([Query q, LogError ''Error fetching TV shows:'' err,
                    LogError ''Error generating TV shows sitemap:'' err], Inl err)
              | None \<Rightarrow>
                  (case reply_data r of
                     None \<Rightarrow> ([Query q], Inr (xml @ ''</urlset>''))
                   | Some tvShows \<Rightarrow>
                       if length tvShows > 0 then
                         (let started =
                                LogInfo (''Generating sitemap for ''
                                  @ number_to_string (Fin (of_nat (length tvShows)))
                                  @ '' TV shows'')
                          in case collect (concat (map (tvshow_entries pf) tvShows)) of
                               Inl e \<Rightarrow>
                                 ([Query q, started,
                                   LogError ''Error generating TV shows sitemap:'' e], Inl e)
                             | Inr body \<Rightarrow>
                                 ([Query q, started], Inr (xml @ body @ ''</urlset>'')))
                       else ([Query q], Inr (xml @ ''</urlset>'')))))\<close>

text \<open>The address of a page of popular people.\<close>

definition people_address :: "string \<Rightarrow> nat \<Rightarrow> string" where
  "people_address tmdbApiKey page =
     ''https://api.themoviedb.org/3/person/popular?api_key='' @ tmdbApiKey
     @ ''&page='' @ number_to_string (Fin (of_nat page))"

text \<open>
  The loop over the pages of popular people: \<open>page\<close> runs from 1 to 10; the list
  \<open>people\<close> grows by the results of each page. The events are returned in order.
\<close>

function people_pages ::
  "(string \<Rightarrow> thrown + response) \<Rightarrow> string \<Rightarrow> nat \<Rightarrow> person list
   \<Rightarrow> event list \<times> (thrown + person list)" where
  "people_pages api tmdbApiKey page people =
     (if page \<le> 10 then
        (let address = people_address tmdbApiKey page
         in case api address of
              Inl e \<Rightarrow> ([Fetch address], Inl e)
            | Inr resp \<Rightarrow>
                if \<not> resp_ok resp then
                  ([Fetch address,
                    LogErrorText (''Error fetching popular people page ''
                                  @ number_to_string (Fin (of_nat page)) @ '':'')
                      (resp_status_text resp)],
                   Inr people)
                else
                  (case resp_results resp of
                     Inl e \<Rightarrow> ([Fetch address], Inl e)
                   | Inr None \<Rightarrow> ([Fetch address], Inr people)
                   | Inr (Some results) \<Rightarrow>
                       if length results > 0 then
                         (if length (people @ results) \<ge> 2000
                          then ([Fetch address], Inr (people @ results))
                          else (case people_pages api tmdbApiKey (page + 1) (people @ results) of
                                  (evs, r) \<Rightarrow> (Fetch address # evs, r)))
                       else ([Fetch address], Inr people)))
      else ([], Inr people))"
  by pat_completeness auto
termination
  by (relation "measure (\<lambda>(api, tmdbApiKey, page, people). 11 - page)") auto

definition person_entries :: "platform \<Rightarrow> person \<Rightarrow> (thrown + string) list" where
  \<open>person_entries pf person =
     (case createSlugFromName (person_id person) (person_name person) of
        Inl e \<Rightarrow> [Inl e]
      | Inr slug \<Rightarrow>
          (let path = ''/person/'' @ slug;
               images =
                 (if truthy (person_profile_path person)
                  then [\<lparr>img_loc = Some (TMDB_IMAGE_BASE @ tpl (person_profile_path person)),
                         img_title = person_name person,
                         img_caption = Some (tpl (person_name person) @ '' - ''
                            @ tpl (js_or (person_known_for_department person)
                                     (Some ''Actor'')))\<rparr>]
                  else [])
           in map (\<lambda>lang.
                Inr (generateXmlUrl
                  \<lparr>loc = Some (BASE_URL @ ''/'' @ lang @ path),
                   lastmod = Some (today_iso pf),
                   changefreq = Some Monthly,
                   priority = Some (Fin (d64 (7 / 10))),
                   alternates = Some (generateAlternates path),
                   images = (if length images > 0 then Some images else None)\<rparr>))
                SUPPORTED_LANGUAGES))\<close>

definition generatePersonSitemap ::
  "platform \<Rightarrow> (string \<Rightarrow> thrown + response) \<Rightarrow> string \<Rightarrow> event list \<times> (thrown + string)" where
  \<open>generatePersonSitemap pf api tmdbApiKey =
     (let xml =
            urlset_open_images
      in case people_pages api tmdbApiKey 1 [] of
           (evs, Inl e) \<Rightarrow> (evs @ [LogError ''Error generating person sitemap:'' e], Inl e)
         | (evs, Inr people) \<Rightarrow>
             (let started =
                    LogInfo (''Generating sitemap for ''
                      @ number_to_string (Fin (of_nat (length people))) @ '' people'')
              in case collect (concat (map (person_entries pf) (take 2000 people))) of
                   Inl e \<Rightarrow>
                     (evs @ [started, LogError ''Error generating person sitemap:'' e], Inl e)
                 | Inr body \<Rightarrow> (evs @ [started], Inr (xml @ body @ ''</urlset>''))))\<close>


section \<open>The request handler\<close>



datatype body = NoBody | Xml string | JsonError string string





section \<open>Sitemap Assemblers, browser side\<close>





section \<open>The specification's wording\<close>

subsection \<open>The ranker\<close>

text \<open>
  The primary date of a content record: the release date of a movie, the first-air date
  of a TV show.
\<close>

fun primary_date :: "item \<Rightarrow> string option" where
  "primary_date (Movie m) = movie_release_date m"
| "primary_date (TVShow t) = tv_first_air_date t"

text \<open>
  A date is within the last \<open>k\<close> months when it is present, non-empty and strictly later
  than now minus \<open>k\<close> months.
\<close>

definition within_months :: "platform \<Rightarrow> nat \<Rightarrow> string option \<Rightarrow> bool" where
  "within_months pf k d =
     (case d of
        None \<Rightarrow> False
      | Some s \<Rightarrow> s \<noteq> [] \<and> date_after (date_parse pf s) (months_ago pf k))"

text \<open>
  The ranker as the specification words it: a base from the popularity steps, plus 0.05
  for a rating of at least 8.0, plus 0.05 for a recent date, clamped once at the end. The
  decimal constants and the sums are those of JavaScript numbers.
\<close>

definition ranker_spec :: "jsnum \<Rightarrow> jsnum \<Rightarrow> bool \<Rightarrow> rat" where
  "ranker_spec popularity rating recent =
     (let base =
            (if js_gt popularity 100 then d64 (9 / 10)
             else if js_gt popularity 50 then d64 (85 / 100)
             else if js_gt popularity 20 then d64 (75 / 100)
             else if js_gt popularity 10 then d64 (65 / 100)
             else d64 (6 / 10));
          rated = (if js_ge rating 8 then js_add base (d64 (5 / 100)) else base);
          dated = (if recent then js_add rated (d64 (5 / 100)) else rated)
      in min 1 (max (1 / 2) dated))"

text \<open>
  The same formula in exact decimal arithmetic. The ranker's binary64 result is the
  nearest or next-to-nearest number to it, not always equal: 0.9 plus 0.05 is
  0.9500000000000001 in JavaScript.
\<close>

definition ranker_decimal :: "jsnum \<Rightarrow> jsnum \<Rightarrow> bool \<Rightarrow> rat" where
  "ranker_decimal popularity rating recent =
     (let base =
            (if js_gt popularity 100 then 9 / 10
             else if js_gt popularity 50 then 85 / 100
             else if js_gt popularity 20 then 75 / 100
             else if js_gt popularity 10 then 65 / 100
             else 6 / 10);
          rated = (if js_ge rating 8 then base + 5 / 100 else base);
          dated = (if recent then rated + 5 / 100 else rated)
      in min 1 (max (1 / 2) dated))"

subsection \<open>The pages of people\<close>


subsection \<open>Escaping\<close>




section \<open>A fixed clock and sample records\<close>

text \<open>
  A platform whose clock stands at noon of 2026-11-03 (UTC), with the time values of the
  few dates the examples below use.
\<close>

definition clock_2026_11_03 :: platform where
  "clock_2026_11_03 =
     \<lparr>date_parse =
        (\<lambda>s. if s = ''2026-10-03'' then Some 1790985600000
             else if s = ''2026-07-03'' then Some 1783036800000
             else if s = ''2021-11-03'' then Some 1635897600000
             else None),
      months_ago =
        (\<lambda>k. if k = 3 then 1785758400000
             else if k = 6 then 1777809600000
             else 1793707200000),
      today_iso = ''2026-11-03'',
      iso_day = (\<lambda>s. Inr (take 10 s)),
      full_year = (\<lambda>s. take 4 s)\<rparr>"

definition sample_movie :: movie where
  "sample_movie =
     \<lparr>movie_id = 42,
      movie_slug = Some ''42-title'',
      movie_title = Some ''Title'',
      movie_original_title = Some ''Title'',
      movie_popularity = Some (Fin 150),
      movie_vote_average = Some (Fin (85 / 10)),
      movie_release_date = Some ''2026-10-03'',
      movie_updated_at = Some ''2026-10-20T08:00:00Z'',
      movie_poster_path = Some ''/p.jpg'',
      movie_backdrop_path = None\<rparr>"

text \<open>
  A person, a store that answers the movies query with at most one row (it honours the
  limit of the query) and the TV-shows query with none, and a metadata API with one person
  on page 1 and no results on every other page.
\<close>

definition sample_person :: person where
  "sample_person =
     \<lparr>person_id = Fin 31,
      person_name = Some ''Tom Hanks'',
      person_profile_path = None,
      person_popularity = Some (Fin 80),
      person_known_for_department = Some ''Acting''\<rparr>"

definition sample_store :: store where
  "sample_store =
     \<lparr>movies_rows = (\<lambda>q. Inr \<lparr>reply_data = Some (take (q_limit q) [sample_movie]),
                               reply_error = None\<rparr>),
      tv_rows = (\<lambda>q. Inr \<lparr>reply_data = Some [], reply_error = None\<rparr>)\<rparr>"

definition sample_api :: "string \<Rightarrow> thrown + response" where
  "sample_api address =
     (if address = people_address ''key'' 1
      then Inr \<lparr>resp_ok = True, resp_status_text = ''OK'',
                resp_results = Inr (Some [sample_person])\<rparr>
      else Inr \<lparr>resp_ok = True, resp_status_text = ''OK'', resp_results = Inr (Some [])\<rparr>)"


definition rejecting_api :: "string \<Rightarrow> thrown + response" where
  "rejecting_api address = Inl (OtherValue ''PostgrestError'')"






section \<open>Binary64 values of the ranker's constants and sums\<close>

lemma d64_literals:
  "d64 (9 / 10) = 8106479329266893 / 9007199254740992"
  "d64 (85 / 100) = 7656119366529843 / 9007199254740992"
  "d64 (75 / 100) = 3 / 4"
  "d64 (65 / 100) = 5854679515581645 / 9007199254740992"
  "d64 (6 / 10) = 5404319552844595 / 9007199254740992"
  "d64 (5 / 100) = 3602879701896397 / 72057594037927936"
  "d64 (5 / 10) = 1 / 2"
  by code_simp+

lemma js_add_once:
  "js_add (8106479329266893 / 9007199254740992) (3602879701896397 / 72057594037927936)
     = 8556839292003943 / 9007199254740992"
  "js_add (7656119366529843 / 9007199254740992) (3602879701896397 / 72057594037927936)
     = 8106479329266893 / 9007199254740992"
  "js_add (3 / 4) (3602879701896397 / 72057594037927936)
     = 3602879701896397 / 4503599627370496"
  "js_add (5854679515581645 / 9007199254740992) (3602879701896397 / 72057594037927936)
     = 6305039478318695 / 9007199254740992"
  "js_add (5404319552844595 / 9007199254740992) (3602879701896397 / 72057594037927936)
     = 5854679515581645 / 9007199254740992"
  by code_simp+

lemma js_add_twice:
  "js_add (8556839292003943 / 9007199254740992) (3602879701896397 / 72057594037927936) = 1"
  "js_add (3602879701896397 / 4503599627370496) (3602879701896397 / 72057594037927936)
     = 1914029841632461 / 2251799813685248"
  "js_add (6305039478318695 / 9007199254740992) (3602879701896397 / 72057594037927936)
     = 6755399441055745 / 9007199254740992"
  by code_simp+

section \<open>Properties of the ranker\<close>

lemma calculatePriority_ranker_spec:
  "calculatePriority pf item =
     ranker_spec (number_or_zero (item_popularity item))
       (number_or_zero (item_vote_average item)) (within_months pf 6 (primary_date item))"
  unfolding calculatePriority_def ranker_spec_def within_months_def d64_literals
  by (cases item) (simp_all add: Let_def js_add_once js_add_twice split: option.splits)

lemma calculatePriority_browser_ranker_spec:
  "calculatePriority_browser pf item =
     ranker_spec (number_or_zero (item_popularity item))
       (number_or_zero (item_vote_average item)) (within_months pf 6 (primary_date item))"
  unfolding calculatePriority_browser_def ranker_spec_def within_months_def d64_literals
  by (cases item)
    (simp_all add: Let_def js_or_def js_add_once js_add_twice split: option.splits)

lemma ranker_spec_mono:
  "p \<le> q \<Longrightarrow> ranker_spec (Fin p) v r \<le> ranker_spec (Fin q) v r"
  unfolding ranker_spec_def d64_literals
  by (simp add: Let_def js_add_once js_add_twice)

lemma ranker_spec_range: "1 / 2 \<le> ranker_spec p v r \<and> ranker_spec p v r \<le> 1"
  unfolding ranker_spec_def by (simp add: Let_def)

lemma ranker_spec_near_decimal:
  "\<bar>ranker_spec p v r - ranker_decimal p v r\<bar> < 1 / 2 ^ 52"
  unfolding ranker_spec_def ranker_decimal_def d64_literals
  by (simp add: Let_def js_add_once js_add_twice)

lemma ranker_spec_not_decimal:
  "ranker_spec (Fin 150) (Fin 9) False = 8556839292003943 / 9007199254740992
   \<and> ranker_decimal (Fin 150) (Fin 9) False = 95 / 100"
  unfolding ranker_spec_def ranker_decimal_def d64_literals
  by (simp add: Let_def js_add_once js_add_twice)

lemma set_popularity_reads:
  "item_popularity (set_popularity p item) = p"
  "item_vote_average (set_popularity p item) = item_vote_average item"
  "primary_date (set_popularity p item) = primary_date item"
  by (cases item; simp)+

lemma calculatePriority_mono:
  "p \<le> q \<Longrightarrow>
   calculatePriority pf (set_popularity (Some (Fin p)) item)
     \<le> calculatePriority pf (set_popularity (Some (Fin q)) item)"
  by (simp add: calculatePriority_ranker_spec set_popularity_reads ranker_spec_mono)

lemma calculatePriority_browser_mono:
  "p \<le> q \<Longrightarrow>
   calculatePriority_browser pf (set_popularity (Some (Fin p)) item)
     \<le> calculatePriority_browser pf (set_popularity (Some (Fin q)) item)"
  by (simp add: calculatePriority_browser_ranker_spec set_popularity_reads ranker_spec_mono)

text \<open>
  C2. For every record and every clock, the Priority Ranker (either copy) returns a value
  in the closed interval from 0.5 to 1.0. With rating and date held fixed, the result does
  not decrease as the popularity grows: in particular along 5, 15, 25, 60, 150.
\<close>

theorem ranker_range_and_monotone:
  "1 / 2 \<le> calculatePriority pf item \<and> calculatePriority pf item \<le> 1
   \<and> 1 / 2 \<le> calculatePriority_browser pf item \<and> calculatePriority_browser pf item \<le> 1
   \<and> calculatePriority pf (set_popularity (Some (Fin 5)) item)
       \<le> calculatePriority pf (set_popularity (Some (Fin 15)) item)
   \<and> calculatePriority pf (set_popularity (Some (Fin 15)) item)
       \<le> calculatePriority pf (set_popularity (Some (Fin 25)) item)
   \<and> calculatePriority pf (set_popularity (Some (Fin 25)) item)
       \<le> calculatePriority pf (set_popularity (Some (Fin 60)) item)
   \<and> calculatePriority pf (set_popularity (Some (Fin 60)) item)
       \<le> calculatePriority pf (set_popularity (Some (Fin 150)) item)
   \<and> (\<forall>p q. p \<le> q \<longrightarrow>
         calculatePriority pf (set_popularity (Some (Fin p)) item)
           \<le> calculatePriority pf (set_popularity (Some (Fin q)) item)
         \<and> calculatePriority_browser pf (set_popularity (Some (Fin p)) item)
           \<le> calculatePriority_browser pf (set_popularity (Some (Fin q)) item))"
proof -
  have range: "1 / 2 \<le> calculatePriority pf item \<and> calculatePriority pf item \<le> 1"
    by (simp only: calculatePriority_ranker_spec ranker_spec_range)
  have range_b:
    "1 / 2 \<le> calculatePriority_browser pf item \<and> calculatePriority_browser pf item \<le> 1"
    by (simp only: calculatePriority_browser_ranker_spec ranker_spec_range)
  have steps:
    "calculatePriority pf (set_popularity (Some (Fin 5)) item)
       \<le> calculatePriority pf (set_popularity (Some (Fin 15)) item)"
    "calculatePriority pf (set_popularity (Some (Fin 15)) item)
       \<le> calculatePriority pf (set_popularity (Some (Fin 25)) item)"
    "calculatePriority pf (set_popularity (Some (Fin 25)) item)
       \<le> calculatePriority pf (set_popularity (Some (Fin 60)) item)"
    "calculatePriority pf (set_popularity (Some (Fin 60)) item)
       \<le> calculatePriority pf (set_popularity (Some (Fin 150)) item)"
    by (rule calculatePriority_mono, simp)+
  from range range_b steps show ?thesis
    using calculatePriority_mono calculatePriority_browser_mono by blast
qed

theorem ranker_range_and_monotone_witness:
  "calculatePriority clock_2026_11_03 (set_popularity (Some (Fin 5)) (Movie sample_movie))
     = 6305039478318695 / 9007199254740992
   \<and> calculatePriority clock_2026_11_03 (set_popularity (Some (Fin 150)) (Movie sample_movie))
     = 1
   \<and> calculatePriority clock_2026_11_03 (set_popularity (Some (Fin 5)) (Movie sample_movie))
     \<le> calculatePriority clock_2026_11_03
         (set_popularity (Some (Fin 150)) (Movie sample_movie))"
proof -
  have low:
    "calculatePriority clock_2026_11_03 (set_popularity (Some (Fin 5)) (Movie sample_movie))
       = 6305039478318695 / 9007199254740992"
    unfolding calculatePriority_def d64_literals
    by (simp add: Let_def sample_movie_def clock_2026_11_03_def js_add_once js_add_twice)
  have high:
    "calculatePriority clock_2026_11_03
       (set_popularity (Some (Fin 150)) (Movie sample_movie)) = 1"
    unfolding calculatePriority_def d64_literals
    by (simp add: Let_def sample_movie_def clock_2026_11_03_def js_add_once js_add_twice)
  have "(5::rat) \<le> 150" by simp
  with ranker_range_and_monotone [of clock_2026_11_03 "Movie sample_movie"]
  have "calculatePriority clock_2026_11_03
          (set_popularity (Some (Fin 5)) (Movie sample_movie))
        \<le> calculatePriority clock_2026_11_03
          (set_popularity (Some (Fin 150)) (Movie sample_movie))"
    by blast
  with low high show ?thesis by simp
qed

text \<open>
  C3. The Priority Ranker (either copy) computes the specification's formula: the base
  0.9, 0.85, 0.75, 0.65 or 0.6 by popularity above 100, 50, 20, 10 or not, plus 0.05 when
  the rating is at least 8.0, plus 0.05 when the primary date is strictly later than now
  minus 6 months, clamped to the interval from 0.5 to 1.0. A missing popularity or rating
  counts as 0 and a missing date gets no recency bonus. A record with popularity above
  100, rating at least 8.0 and a recent date, such as popularity 150 with rating 8.5 and a
  date one month in the past, gets exactly 1.
\<close>

theorem ranker_formula:
  "calculatePriority pf item =
     ranker_spec (number_or_zero (item_popularity item))
       (number_or_zero (item_vote_average item)) (within_months pf 6 (primary_date item))
   \<and> calculatePriority_browser pf item =
     ranker_spec (number_or_zero (item_popularity item))
       (number_or_zero (item_vote_average item)) (within_months pf 6 (primary_date item))
   \<and> number_or_zero None = Fin 0
   \<and> within_months pf 6 None = False
   \<and> (js_gt (number_or_zero (item_popularity item)) 100
        \<and> js_ge (number_or_zero (item_vote_average item)) 8
        \<and> within_months pf 6 (primary_date item)
      \<longrightarrow> calculatePriority pf item = 1 \<and> calculatePriority_browser pf item = 1)"
proof -
  have top: "ranker_spec p v True = 1" if "js_gt p 100" "js_ge v 8" for p v
    using that unfolding ranker_spec_def d64_literals
    by (simp add: Let_def js_add_once js_add_twice)
  show ?thesis
    by (simp add: calculatePriority_ranker_spec calculatePriority_browser_ranker_spec
        within_months_def top)
qed

theorem ranker_formula_witness:
  "js_gt (number_or_zero (item_popularity (Movie sample_movie))) 100
   \<and> js_ge (number_or_zero (item_vote_average (Movie sample_movie))) 8
   \<and> within_months clock_2026_11_03 6 (primary_date (Movie sample_movie))
   \<and> calculatePriority clock_2026_11_03 (Movie sample_movie) = 1
   \<and> calculatePriority_browser clock_2026_11_03 (Movie sample_movie) = 1"
proof -
  have pre:
    "js_gt (number_or_zero (item_popularity (Movie sample_movie))) 100
     \<and> js_ge (number_or_zero (item_vote_average (Movie sample_movie))) 8
     \<and> within_months clock_2026_11_03 6 (primary_date (Movie sample_movie))"
    by (simp add: sample_movie_def clock_2026_11_03_def within_months_def)
  with ranker_formula [of clock_2026_11_03 "Movie sample_movie"] show ?thesis
    by blast
qed

text \<open>
  C9. The browser-side module duplicates the core logic of the server-side function: on
  every content record (a row of the movies or of the TV-shows table) and every clock,
  the browser-side Priority Ranker and Change-Frequency Classifier return what their
  server-side counterparts return.
\<close>

theorem browser_copies_agree:
  "calculatePriority_browser pf item = calculatePriority pf item
   \<and> calculateChangefreq_browser pf item = calculateChangefreq pf item"
proof
  show "calculatePriority_browser pf item = calculatePriority pf item"
    by (simp only: calculatePriority_ranker_spec calculatePriority_browser_ranker_spec)
  show "calculateChangefreq_browser pf item = calculateChangefreq pf item"
    by (cases item)
      (simp_all add: calculateChangefreq_def calculateChangefreq_browser_def js_or_def
        split: option.splits)
qed

section \<open>Properties of the classifier and the link builder\<close>

text \<open>
  C4. The Change-Frequency Classifier returns \<open>weekly\<close> for every record whose
  in-production flag is set, however old its primary date is. Otherwise it returns
  \<open>weekly\<close> exactly when the primary date is strictly later than now minus 3 months, and
  \<open>monthly\<close> in all remaining cases, among them the absent date. Both copies of the
  classifier are covered.
\<close>

theorem changefreq_classifier:
  "calculateChangefreq pf item =
     (if item_in_production item = Some True then Weekly
      else if within_months pf 3 (primary_date item) then Weekly
      else Monthly)
   \<and> calculateChangefreq_browser pf item =
     (if item_in_production item = Some True then Weekly
      else if within_months pf 3 (primary_date item) then Weekly
      else Monthly)
   \<and> calculateChangefreq pf (TVShow (t\<lparr>tv_in_production := Some True\<rparr>)) = Weekly
   \<and> within_months pf 3 None = False"
  by (cases item)
    (simp_all add: calculateChangefreq_def calculateChangefreq_browser_def js_or_def
      within_months_def split: option.splits)

text \<open>
  C5. For a path and a language list of length \<open>L\<close>, the Alternate-Link Builder returns
  exactly \<open>L + 1\<close> entries: one per language in list order with the address
  \<open>baseUrl/language\<close> followed by the path, then a last entry tagged \<open>x-default\<close> with the
  English address. Every entry's address ends with the path. The server-side builder is
  the instance with the eleven supported languages and the site's base URL.
\<close>

theorem alternates_shape:
  "length (alternates_for langs baseUrl path) = length langs + 1
   \<and> map hreflang (alternates_for langs baseUrl path) = langs @ [''x-default'']
   \<and> map href (alternates_for langs baseUrl path) =
       map (\<lambda>lang. baseUrl @ ''/'' @ lang @ path) (langs @ [''en''])
   \<and> last (alternates_for langs baseUrl path) =
       \<lparr>hreflang = ''x-default'', href = baseUrl @ ''/en'' @ path\<rparr>
   \<and> (\<forall>a \<in> set (alternates_for langs baseUrl path). suffix path (href a))
   \<and> generateAlternates path = alternates_for SUPPORTED_LANGUAGES BASE_URL path
   \<and> generateAlternates_browser langs baseUrl path = alternates_for langs baseUrl path
   \<and> length (generateAlternates path) = 12"
  by (auto simp: alternates_for_def generateAlternates_def generateAlternates_browser_def
      SUPPORTED_LANGUAGES_def comp_def suffix_def)

theorem alternates_shape_witness:
  "map hreflang (alternates_for [''en'', ''tr''] BASE_URL ''/movie/42-title'')
     = [''en'', ''tr'', ''x-default'']
   \<and> map href (alternates_for [''en'', ''tr''] BASE_URL ''/movie/42-title'')
     = [''https://www.tvshowup.com/en/movie/42-title'',
        ''https://www.tvshowup.com/tr/movie/42-title'',
        ''https://www.tvshowup.com/en/movie/42-title'']
   \<and> suffix ''/movie/42-title''
        (href (last (alternates_for [''en'', ''tr''] BASE_URL ''/movie/42-title'')))"
proof -
  note shape = alternates_shape [of "[''en'', ''tr'']" BASE_URL "''/movie/42-title''"]
  have "last (alternates_for [''en'', ''tr''] BASE_URL ''/movie/42-title'')
          \<in> set (alternates_for [''en'', ''tr''] BASE_URL ''/movie/42-title'')"
    by (simp add: alternates_for_def)
  with shape have
    "suffix ''/movie/42-title''
       (href (last (alternates_for [''en'', ''tr''] BASE_URL ''/movie/42-title'')))"
    by blast
  with shape show ?thesis by (simp add: BASE_URL_def)
qed

section \<open>Properties of the serializer\<close>

lemma replace_all_append:
  "replace_all c r (xs @ ys) = replace_all c r xs @ replace_all c r ys"
  by (induction xs) simp_all










text \<open>
  C10. The server-side serializer returns a fragment for every value object, also when the
  location or a text of an image is \<open>null\<close>, \<open>undefined\<close> or empty: the escape helper maps
  these to the empty string, so that a missing location gives an empty \<open>loc\<close> element. The
  embedding of the serializer is a total function to strings because no statement of the
  source can throw on such a value; the browser-side helper, which has no guard, throws a
  \<open>TypeError\<close> on a missing location.
\<close>

theorem serializer_total:
  \<open>escapeXml None = [] \<and> escapeXml (Some []) = []
   \<and> generateXmlUrl
        \<lparr>loc = None, lastmod = None, changefreq = None, priority = None,
         alternates = None, images = None\<rparr>
       = ''  <url>\<newline>    <loc></loc>\<newline>  </url>\<newline>''
   \<and> generateXmlUrl (url\<lparr>loc := None\<rparr>) = generateXmlUrl (url\<lparr>loc := Some []\<rparr>)
   \<and> prefix ''  <url>\<newline>    <loc></loc>\<newline>'' (generateXmlUrl (url\<lparr>loc := None\<rparr>))
   \<and> prefix (''  <url>\<newline>    <loc>'' @ escapeXml (loc url) @ ''</loc>\<newline>'')
        (generateXmlUrl url)
   \<and> generateXmlUrl
        \<lparr>loc = None, lastmod = None, changefreq = None, priority = None,
         alternates = None,
         images = Some [\<lparr>img_loc = None, img_title = None, img_caption = None\<rparr>]\<rparr>
       = ''  <url>\<newline>    <loc></loc>\<newline>''
         @ ''    <image:image>\<newline>      <image:loc></image:loc>\<newline>    </image:image>\<newline>''
         @ ''  </url>\<newline>''
   \<and> escapeXml_browser None = Inl (ErrorObj ''TypeError'')
   \<and> generateXmlUrl_browser (url\<lparr>loc := None\<rparr>) = Inl (ErrorObj ''TypeError'')\<close>
proof -
  have shape:
    \<open>prefix (''  <url>\<newline>    <loc>'' @ escapeXml (loc url) @ ''</loc>\<newline>'')
       (generateXmlUrl url)\<close>
    unfolding generateXmlUrl_def by simp
  have pre: \<open>prefix ''  <url>\<newline>    <loc></loc>\<newline>'' (generateXmlUrl (url\<lparr>loc := None\<rparr>))\<close>
    unfolding generateXmlUrl_def by (simp add: escapeXml_def)
  show ?thesis
    using shape pre
    by (simp add: escapeXml_def generateXmlUrl_def escapeXml_browser_def
        generateXmlUrl_browser_def)
qed


declare dec.simps [simp del]

lemma dec_digits: "set (dec n) \<subseteq> set ''0123456789''"
proof (induction n rule: dec.induct)
  case (1 n)
  have m: "n mod 10 < 10" by simp
  have d: "''0123456789'' ! k \<in> set ''0123456789''" if "k < 10" for k
    using that by (intro nth_mem) simp
  show ?case
  proof (cases "n < 10")
    case True
    then show ?thesis using d [of n] by (subst dec.simps) simp
  next
    case False
    with 1 d [OF m] show ?thesis by (subst dec.simps) simp
  qed
qed

lemma dec_nonempty: "dec n \<noteq> []"
  by (subst dec.simps) simp

lemma dec_two_digits: "10 \<le> n \<Longrightarrow> 2 \<le> length (dec n)"
  using dec_nonempty [of "n div 10"]
  by (subst dec.simps) (simp add: Suc_le_eq)

lemma toFixed1_one_decimal:
  assumes "\<bar>q\<bar> < 10 ^ 21"
  shows "\<exists>ds d. toFixed1 (Fin q) = (if q < 0 then ''-'' else []) @ ds @ ''.'' @ [d]
           \<and> ds \<noteq> [] \<and> set (ds @ [d]) \<subseteq> set ''0123456789''"
proof -
  define n where "n = nat \<lfloor>\<bar>q\<bar> * 10 + 1 / 2\<rfloor>"
  define m where "m = (if n < 10 then ''0'' @ dec n else dec n)"
  have len: "2 \<le> length m"
    using dec_nonempty [of n] dec_two_digits [of n]
    by (auto simp: m_def Suc_le_eq)
  then have ne: "m \<noteq> []" by auto
  have digits: "set m \<subseteq> set ''0123456789''"
    using dec_digits [of n] by (auto simp: m_def)
  have val: "toFixed1 (Fin q) = (if q < 0 then ''-'' else []) @ butlast m @ ''.'' @ [last m]"
    using assms by (simp add: Let_def n_def m_def)
  have bl: "butlast m \<noteq> []"
    using len by (cases m rule: rev_cases) auto
  have "set (butlast m @ [last m]) \<subseteq> set ''0123456789''"
    using digits ne by simp
  with val bl show ?thesis by blast
qed

lemma number_texts:
  "number_to_string (Fin 1) = ''1''"
  "number_to_string (Fin (7656119366529843 / 9007199254740992)) = ''0.85''"
  "toFixed1 (Fin 1) = ''1.0''"
  "toFixed1 (Fin (7656119366529843 / 9007199254740992)) = ''0.8''"
  by code_simp+

text \<open>
  C6. The priority text: the server-side serializer prints the priority with
  \<open>toFixed(1)\<close>, which gives one decimal digit for every finite number below \<open>10 ^ 21\<close>.
  The browser-side serializer prints the number as the template literal renders it: the
  priority 1 of the home page becomes \<open>1\<close> where the server side prints \<open>1.0\<close>, and the
  priority 0.85 becomes \<open>0.85\<close> where the server side prints \<open>0.8\<close>.
\<close>

theorem browser_priority_text:
  \<open>generateXmlUrl_browser
      \<lparr>loc = Some ''https://www.tvshowup.com/en/'', lastmod = None, changefreq = None,
       priority = Some (Fin 1), alternates = None, images = None\<rparr>
     = Inr (''  <url>\<newline>''
            @ ''    <loc>https://www.tvshowup.com/en/</loc>\<newline>''
            @ ''    <priority>1</priority>\<newline>''
            @ ''  </url>\<newline>'')
   \<and> generateXmlUrl
      \<lparr>loc = Some ''https://www.tvshowup.com/en/'', lastmod = None, changefreq = None,
       priority = Some (Fin 1), alternates = None, images = None\<rparr>
     = ''  <url>\<newline>''
       @ ''    <loc>https://www.tvshowup.com/en/</loc>\<newline>''
       @ ''    <priority>1.0</priority>\<newline>''
       @ ''  </url>\<newline>''
   \<and> generateXmlUrl_browser
      \<lparr>loc = Some ''u'', lastmod = None, changefreq = None,
       priority = Some (Fin (d64 (85 / 100))), alternates = None, images = None\<rparr>
     = Inr (''  <url>\<newline>''
            @ ''    <loc>u</loc>\<newline>''
            @ ''    <priority>0.85</priority>\<newline>''
            @ ''  </url>\<newline>'')
   \<and> generateXmlUrl
      \<lparr>loc = Some ''u'', lastmod = None, changefreq = None,
       priority = Some (Fin (d64 (85 / 100))), alternates = None, images = None\<rparr>
     = ''  <url>\<newline>''
       @ ''    <loc>u</loc>\<newline>''
       @ ''    <priority>0.8</priority>\<newline>''
       @ ''  </url>\<newline>''\<close>
  unfolding generateXmlUrl_browser_def generateXmlUrl_def d64_literals
  by (simp add: escapeXml_browser_def escapeXml_def number_texts
      del: number_to_string.simps toFixed1.simps)

section \<open>Properties of the assemblers\<close>

declare people_pages.simps [simp del]

lemma fetches_append: "fetches (xs @ ys) = fetches xs @ fetches ys"
  by (induction xs rule: fetches.induct) simp_all

lemma queries_append: "queries (xs @ ys) = queries xs @ queries ys"
  by (induction xs rule: queries.induct) simp_all

lemma people_pages_fetches:
  "\<exists>n. n \<le> 11 - page \<and>
       fetches (fst (people_pages api key page people))
         = map (people_address key) [page ..< page + n]"
proof (induction api key page people rule: people_pages.induct)
  case (1 api key page people)
  show ?case
  proof (cases "page \<le> 10")
    case False
    then show ?thesis
      by (subst people_pages.simps) (auto intro: exI [where x = 0])
  next
    case True
    have one: "[page ..< page + 1] = [page]" by simp
    have single: "\<exists>n. n \<le> 11 - page \<and> [people_address key page]
        = map (people_address key) [page ..< page + n]"
      using True by (intro exI [where x = 1]) simp
    show ?thesis
    proof (cases "api (people_address key page)")
      case (Inl e)
      with True single show ?thesis
        by (subst people_pages.simps) (simp add: Let_def)
    next
      case (Inr resp)
      show ?thesis
      proof (cases "resp_ok resp")
        case False
        with True Inr single show ?thesis
          by (subst people_pages.simps) (simp add: Let_def)
      next
        case ok: True
        show ?thesis
        proof (cases "resp_results resp")
          case (Inl e)
          with True Inr ok single show ?thesis
            by (subst people_pages.simps) (simp add: Let_def)
        next
          case res: (Inr results)
          show ?thesis
          proof (cases results)
            case None
            with True Inr ok res single show ?thesis
              by (subst people_pages.simps) (simp add: Let_def)
          next
            case (Some rs)
            show ?thesis
            proof (cases "0 < length rs \<and> \<not> 2000 \<le> length (people @ rs)")
              case False
              with True Inr ok res Some single show ?thesis
                by (subst people_pages.simps) (auto simp: Let_def)
            next
              case go: True
              from "1.IH" [OF True refl Inr _ res Some] ok go
              obtain n where n: "n \<le> 11 - (page + 1)"
                "fetches (fst (people_pages api key (page + 1) (people @ rs)))
                   = map (people_address key) [page + 1 ..< page + 1 + n]"
                by auto
              have "fetches (fst (people_pages api key page people))
                  = people_address key page
                    # fetches (fst (people_pages api key (page + 1) (people @ rs)))"
                using True Inr ok res Some go
                by (subst people_pages.simps) (simp add: Let_def split: prod.splits)
              also have "\<dots> = map (people_address key) [page ..< page + (n + 1)]"
                using n(2) by (simp add: upt_rec [of page])
              finally show ?thesis
                using n(1) True by (intro exI [where x = "n + 1"]) simp
            qed
          qed
        qed
      qed
    qed
  qed
qed

lemma people_pages_stops:
  assumes "page \<le> p"
    and "case api (people_address key p) of
           Inl e \<Rightarrow> True
         | Inr resp \<Rightarrow>
             \<not> resp_ok resp \<or> (case resp_results resp of
                                 Inl e \<Rightarrow> True
                               | Inr None \<Rightarrow> True
                               | Inr (Some results) \<Rightarrow> results = [])"
  shows "length (fetches (fst (people_pages api key page people))) \<le> p + 1 - page"
  using assms
proof (induction api key page people rule: people_pages.induct)
  case (1 api key page people)
  show ?case
  proof (cases "page \<le> 10")
    case False
    then show ?thesis by (subst people_pages.simps) simp
  next
    case True
    show ?thesis
    proof (cases "page = p")
      case True
      with "1.prems" show ?thesis
        by (subst people_pages.simps)
          (auto simp: Let_def split: sum.splits option.splits prod.splits)
    next
      case False
      with "1.prems" have lt: "page + 1 \<le> p" by simp
      show ?thesis
      proof (cases "api (people_address key page)")
        case (Inl e)
        with True lt show ?thesis
          by (subst people_pages.simps) (simp add: Let_def)
      next
        case (Inr resp)
        show ?thesis
        proof (cases "resp_ok resp")
          case False
          with True Inr lt show ?thesis
            by (subst people_pages.simps) (simp add: Let_def)
        next
          case ok: True
          show ?thesis
          proof (cases "resp_results resp")
            case (Inl e)
            with True Inr ok lt show ?thesis
              by (subst people_pages.simps) (simp add: Let_def)
          next
            case res: (Inr results)
            show ?thesis
            proof (cases results)
              case None
              with True Inr ok res lt show ?thesis
                by (subst people_pages.simps) (simp add: Let_def)
            next
              case (Some rs)
              show ?thesis
              proof (cases "0 < length rs \<and> \<not> 2000 \<le> length (people @ rs)")
                case False
                with True Inr ok res Some lt show ?thesis
                  by (subst people_pages.simps) (auto simp: Let_def)
              next
                case go: True
                from "1.IH" [OF True refl Inr _ res Some _ _ lt "1.prems"(2)] ok go
                have "length (fetches (fst (people_pages api key (page + 1) (people @ rs))))
                        \<le> p + 1 - (page + 1)"
                  by auto
                moreover have "fetches (fst (people_pages api key page people))
                    = people_address key page
                      # fetches (fst (people_pages api key (page + 1) (people @ rs)))"
                  using True Inr ok res Some go
                  by (subst people_pages.simps) (simp add: Let_def split: prod.splits)
                ultimately show ?thesis using lt by simp
              qed
            qed
          qed
        qed
      qed
    qed
  qed
qed

lemma person_entries_length: "length (person_entries pf person) \<le> 11"
  by (simp add: person_entries_def SUPPORTED_LANGUAGES_def Let_def split: sum.splits)

lemma movie_entries_length: "length (movie_entries pf movie) = 11"
  by (simp add: movie_entries_def SUPPORTED_LANGUAGES_def Let_def)

lemma tvshow_entries_length: "length (tvshow_entries pf show) = 11"
  by (simp add: tvshow_entries_def SUPPORTED_LANGUAGES_def Let_def)

lemma length_concat_le:
  "(\<And>x. length (f x) \<le> k) \<Longrightarrow> length (concat (map f xs)) \<le> k * length xs"
proof (induction xs)
  case Nil
  show ?case by simp
next
  case (Cons x xs)
  from Cons.prems [of x] Cons.IH [OF Cons.prems] show ?case by simp
qed

lemma length_concat_eq:
  "(\<And>x. length (f x) = k) \<Longrightarrow> length (concat (map f xs)) = k * length xs"
  by (induction xs) simp_all

lemma generatePersonSitemap_fetches:
  "fetches (fst (generatePersonSitemap pf api key)) = fetches (fst (people_pages api key 1 []))"
  by (simp add: generatePersonSitemap_def Let_def fetches_append
      split: prod.splits sum.splits)

lemma generatePersonSitemap_records:
  assumes "snd (generatePersonSitemap pf api key) = Inr xml"
  shows "\<exists>persons body. length persons \<le> 2000
           \<and> collect (concat (map (person_entries pf) persons)) = Inr body
           \<and> xml = urlset_open_images @ body @ ''</urlset>''
           \<and> length (concat (map (person_entries pf) persons)) \<le> 11 * 2000"
proof -
  obtain evs r where pp: "people_pages api key 1 [] = (evs, r)"
    by (cases "people_pages api key 1 []")
  with assms obtain people where r: "r = Inr people"
    by (cases r) (auto simp: generatePersonSitemap_def Let_def)
  let ?persons = "take 2000 people"
  from assms pp r obtain body where
    body: "collect (concat (map (person_entries pf) ?persons)) = Inr body"
      "xml = urlset_open_images @ body @ ''</urlset>''"
    by (auto simp: generatePersonSitemap_def Let_def split: sum.splits)
  have "length (concat (map (person_entries pf) ?persons)) \<le> 11 * length ?persons"
    by (rule length_concat_le) (rule person_entries_length)
  then have "length (concat (map (person_entries pf) ?persons)) \<le> 11 * 2000"
    by simp
  with body show ?thesis
    by (intro exI [where x = ?persons] exI [where x = body]) simp
qed

lemma generateMoviesSitemap_queries:
  "\<exists>q. queries (fst (generateMoviesSitemap pf sb)) = [q]
       \<and> q_from q = ''movies'' \<and> q_not_null q = ''slug''
       \<and> q_order_desc q = ''popularity'' \<and> q_limit q = 50000"
  by (simp add: generateMoviesSitemap_def movies_query_def Let_def MAX_URLS_PER_SITEMAP_def
      split: sum.splits option.splits)

lemma generateTVShowsSitemap_queries:
  "\<exists>q. queries (fst (generateTVShowsSitemap pf sb)) = [q]
       \<and> q_from q = ''tv_shows'' \<and> q_not_null q = ''slug''
       \<and> q_order_desc q = ''popularity'' \<and> q_limit q = 50000"
  by (simp add: generateTVShowsSitemap_def tvshows_query_def Let_def MAX_URLS_PER_SITEMAP_def
      split: sum.splits option.splits)

lemma generateMoviesSitemap_records:
  assumes honours:
      "\<forall>q r rows. movies_rows sb q = Inr r \<and> reply_data r = Some rows
         \<longrightarrow> length rows \<le> q_limit q"
    and ok: "snd (generateMoviesSitemap pf sb) = Inr xml"
  shows "\<exists>movies body. length movies \<le> 50000
           \<and> collect (concat (map (movie_entries pf) movies)) = Inr body
           \<and> xml = urlset_open_images @ body @ ''</urlset>''
           \<and> length (concat (map (movie_entries pf) movies)) = 11 * length movies"
proof -
  have count: "length (concat (map (movie_entries pf) movies)) = 11 * length movies"
    for movies
    by (rule length_concat_eq) (rule movie_entries_length)
  have empty: ?thesis if "xml = urlset_open_images @ ''</urlset>''"
    using that by (intro exI [where x = "[]"]) simp
  from ok consider
      (none) "xml = urlset_open_images @ ''</urlset>''"
    | (rows) q r movies body where
        "movies_rows sb q = Inr r" "reply_data r = Some movies"
        "q_limit q = 50000"
        "collect (concat (map (movie_entries pf) movies)) = Inr body"
        "xml = urlset_open_images @ body @ ''</urlset>''"
    by (auto simp: generateMoviesSitemap_def movies_query_def Let_def MAX_URLS_PER_SITEMAP_def
        split: sum.splits option.splits if_splits)
  then show ?thesis
  proof cases
    case none
    then show ?thesis by (rule empty)
  next
    case rows
    from honours rows(1-3) have "length movies \<le> 50000" by fastforce
    with rows(4,5) count [of movies] show ?thesis by blast
  qed
qed

lemma generateTVShowsSitemap_records:
  assumes honours:
      "\<forall>q r rows. tv_rows sb q = Inr r \<and> reply_data r = Some rows
         \<longrightarrow> length rows \<le> q_limit q"
    and ok: "snd (generateTVShowsSitemap pf sb) = Inr xml"
  shows "\<exists>tvs body. length tvs \<le> 50000
           \<and> collect (concat (map (tvshow_entries pf) tvs)) = Inr body
           \<and> xml = urlset_open_images @ body @ ''</urlset>''
           \<and> length (concat (map (tvshow_entries pf) tvs)) = 11 * length tvs"
proof -
  have count: "length (concat (map (tvshow_entries pf) tvs)) = 11 * length tvs"
    for tvs
    by (rule length_concat_eq) (rule tvshow_entries_length)
  have empty: ?thesis if "xml = urlset_open_images @ ''</urlset>''"
    using that by (intro exI [where x = "[]"]) simp
  from ok consider
      (none) "xml = urlset_open_images @ ''</urlset>''"
    | (rows) q r tvs body where
        "tv_rows sb q = Inr r" "reply_data r = Some tvs"
        "q_limit q = 50000"
        "collect (concat (map (tvshow_entries pf) tvs)) = Inr body"
        "xml = urlset_open_images @ body @ ''</urlset>''"
    by (auto simp: generateTVShowsSitemap_def tvshows_query_def Let_def MAX_URLS_PER_SITEMAP_def
        split: sum.splits option.splits if_splits)
  then show ?thesis
  proof cases
    case none
    then show ?thesis by (rule empty)
  next
    case rows
    from honours rows(1-3) have "length tvs \<le> 50000" by fastforce
    with rows(4,5) count [of tvs] show ?thesis by blast
  qed
qed

text \<open>
  C8. Every sitemap document covers a bounded number of content records. The movies and
  the TV-shows assembler each issue exactly one query, limited to 50000 rows; when the
  store honours the limit, the document consists of the entries of at most 50000 rows,
  eleven entries for each. The people assembler requests at most 10 pages, in order from
  page 1; it requests no page after one whose response is not a success or has no
  results; and its document consists of the entries of at most 2000 person records.
\<close>

theorem sitemap_bounds:
  "(\<exists>q. queries (fst (generateMoviesSitemap pf sb)) = [q]
        \<and> q_from q = ''movies'' \<and> q_not_null q = ''slug''
        \<and> q_order_desc q = ''popularity'' \<and> q_limit q = 50000)
   \<and> (\<exists>q. queries (fst (generateTVShowsSitemap pf sb)) = [q]
        \<and> q_from q = ''tv_shows'' \<and> q_not_null q = ''slug''
        \<and> q_order_desc q = ''popularity'' \<and> q_limit q = 50000)
   \<and> ((\<forall>q r rows. movies_rows sb q = Inr r \<and> reply_data r = Some rows
           \<longrightarrow> length rows \<le> q_limit q)
        \<and> snd (generateMoviesSitemap pf sb) = Inr xml
      \<longrightarrow> (\<exists>movies body. length movies \<le> 50000
             \<and> collect (concat (map (movie_entries pf) movies)) = Inr body
             \<and> xml = urlset_open_images @ body @ ''</urlset>''
             \<and> length (concat (map (movie_entries pf) movies)) = 11 * length movies))
   \<and> ((\<forall>q r rows. tv_rows sb q = Inr r \<and> reply_data r = Some rows
           \<longrightarrow> length rows \<le> q_limit q)
        \<and> snd (generateTVShowsSitemap pf sb) = Inr xml'
      \<longrightarrow> (\<exists>tvs body. length tvs \<le> 50000
             \<and> collect (concat (map (tvshow_entries pf) tvs)) = Inr body
             \<and> xml' = urlset_open_images @ body @ ''</urlset>''
             \<and> length (concat (map (tvshow_entries pf) tvs)) = 11 * length tvs))
   \<and> (\<exists>n. n \<le> 10
        \<and> fetches (fst (generatePersonSitemap pf api key))
            = map (people_address key) [1 ..< 1 + n])
   \<and> (1 \<le> p
        \<and> (case api (people_address key p) of
              Inl e \<Rightarrow> True
            | Inr resp \<Rightarrow>
                \<not> resp_ok resp \<or> (case resp_results resp of
                                    Inl e \<Rightarrow> True
                                  | Inr None \<Rightarrow> True
                                  | Inr (Some results) \<Rightarrow> results = []))
      \<longrightarrow> length (fetches (fst (generatePersonSitemap pf api key))) \<le> p)
   \<and> (snd (generatePersonSitemap pf api key) = Inr xml''
      \<longrightarrow> (\<exists>persons body. length persons \<le> 2000
             \<and> collect (concat (map (person_entries pf) persons)) = Inr body
             \<and> xml'' = urlset_open_images @ body @ ''</urlset>''
             \<and> length (concat (map (person_entries pf) persons)) \<le> 11 * 2000))"
proof -
  have pages: "\<exists>n. n \<le> 10
        \<and> fetches (fst (generatePersonSitemap pf api key))
            = map (people_address key) [1 ..< 1 + n]"
    using people_pages_fetches [of 1 api key "[]"]
    by (simp add: generatePersonSitemap_fetches)
  have stop: "length (fetches (fst (generatePersonSitemap pf api key))) \<le> p"
    if "1 \<le> p"
      and "case api (people_address key p) of
              Inl e \<Rightarrow> True
            | Inr resp \<Rightarrow>
                \<not> resp_ok resp \<or> (case resp_results resp of
                                    Inl e \<Rightarrow> True
                                  | Inr None \<Rightarrow> True
                                  | Inr (Some results) \<Rightarrow> results = [])"
    using people_pages_stops [of 1 p api key "[]"] that
    by (simp add: generatePersonSitemap_fetches)
  show ?thesis
    using generateMoviesSitemap_queries [of pf sb] generateTVShowsSitemap_queries [of pf sb]
      generateMoviesSitemap_records [of sb pf xml]
      generateTVShowsSitemap_records [of sb pf xml']
      pages stop generatePersonSitemap_records [of pf api key xml'']
    by (intro conjI impI) blast+
qed

lemma people_address_samples:
  "people_address ''key'' 1 = ''https://api.themoviedb.org/3/person/popular?api_key=key&page=1''"
  "people_address ''key'' 2 = ''https://api.themoviedb.org/3/person/popular?api_key=key&page=2''"
  by code_simp+

lemma people_address_distinct: "people_address ''key'' 2 \<noteq> people_address ''key'' 1"
  by (simp only: people_address_samples) simp

lemma sample_people_pages: "people_pages sample_api ''key'' 1 []
      = ([Fetch (people_address ''key'' 1), Fetch (people_address ''key'' 2)],
         Inr [sample_person])"
    apply (subst people_pages.simps)
    apply (simp add: sample_api_def Let_def del: One_nat_def)
    apply (subst people_pages.simps)
    apply (simp add: sample_api_def Let_def people_address_distinct del: One_nat_def)
    done

lemma createSlugFromName_Some: "\<exists>slug. createSlugFromName i (Some n) = Inr slug"
  by (simp add: createSlugFromName_def)

lemma sample_people_ok: "\<exists>xml''. snd (generatePersonSitemap clock_2026_11_03 sample_api ''key'') = Inr xml''"
proof -
  have fields: "person_id sample_person = Fin 31"
    "person_name sample_person = Some ''Tom Hanks''"
    by (simp_all add: sample_person_def)
  obtain slug where slug:
    "createSlugFromName (person_id sample_person) (person_name sample_person) = Inr slug"
    unfolding fields using createSlugFromName_Some by blast
  show ?thesis
    unfolding generatePersonSitemap_def sample_people_pages
    by (simp add: Let_def person_entries_def slug SUPPORTED_LANGUAGES_def
        del: number_to_string.simps)
qed

lemma sample_movies_ok:
  "\<exists>xml. snd (generateMoviesSitemap clock_2026_11_03 sample_store) = Inr xml"
  by (simp add: generateMoviesSitemap_def movies_query_def sample_store_def MAX_URLS_PER_SITEMAP_def
      movie_entries_def SUPPORTED_LANGUAGES_def Let_def clock_2026_11_03_def
      sample_movie_def del: number_to_string.simps)

theorem sitemap_bounds_witness:
  "(\<exists>movies body. length movies \<le> 50000
      \<and> snd (generateMoviesSitemap clock_2026_11_03 sample_store)
          = Inr (urlset_open_images @ body @ ''</urlset>'')
      \<and> length (concat (map (movie_entries clock_2026_11_03) movies)) = 11 * length movies)
   \<and> snd (generateTVShowsSitemap clock_2026_11_03 sample_store)
       = Inr (urlset_open_images @ ''</urlset>'')
   \<and> length (fetches (fst (generatePersonSitemap clock_2026_11_03 sample_api ''key''))) \<le> 2
   \<and> (\<exists>persons body. length persons \<le> 2000
      \<and> collect (concat (map (person_entries clock_2026_11_03) persons)) = Inr body
      \<and> snd (generatePersonSitemap clock_2026_11_03 sample_api ''key'')
          = Inr (urlset_open_images @ body @ ''</urlset>''))"
proof -
  let ?pf = clock_2026_11_03
  have honours:
    "\<forall>q r rows. movies_rows sample_store q = Inr r \<and> reply_data r = Some rows
       \<longrightarrow> length rows \<le> q_limit q"
    by (auto simp: sample_store_def)
  obtain xml where xml: "snd (generateMoviesSitemap ?pf sample_store) = Inr xml"
    using sample_movies_ok by blast
  have tv: "snd (generateTVShowsSitemap ?pf sample_store)
       = Inr (urlset_open_images @ ''</urlset>'')"
    by (simp add: generateTVShowsSitemap_def sample_store_def)
  have second:
    "case sample_api (people_address ''key'' 2) of
        Inl e \<Rightarrow> True
      | Inr resp \<Rightarrow>
          \<not> resp_ok resp \<or> (case resp_results resp of
                              Inl e \<Rightarrow> True
                            | Inr None \<Rightarrow> True
                            | Inr (Some results) \<Rightarrow> results = [])"
    by (simp add: sample_api_def people_address_distinct del: One_nat_def)
  obtain xmlp where xmlp: "snd (generatePersonSitemap ?pf sample_api ''key'') = Inr xmlp"
    using sample_people_ok by blast
  note inst = sitemap_bounds [of ?pf sample_store xml "urlset_open_images @ ''</urlset>''"
      sample_api "''key''" 2 xmlp]
  from inst honours xml have m:
    "\<exists>movies body. length movies \<le> 50000
       \<and> collect (concat (map (movie_entries ?pf) movies)) = Inr body
       \<and> xml = urlset_open_images @ body @ ''</urlset>''
       \<and> length (concat (map (movie_entries ?pf) movies)) = 11 * length movies"
    by blast
  from inst second have f:
    "length (fetches (fst (generatePersonSitemap ?pf sample_api ''key''))) \<le> 2"
    by simp
  from inst xmlp have p:
    "\<exists>persons body. length persons \<le> 2000
       \<and> collect (concat (map (person_entries ?pf) persons)) = Inr body
       \<and> xmlp = urlset_open_images @ body @ ''</urlset>''
       \<and> length (concat (map (person_entries ?pf) persons)) \<le> 11 * 2000"
    by blast
  from m obtain movies body where mb: "length movies \<le> 50000"
      "xml = urlset_open_images @ body @ ''</urlset>''"
      "length (concat (map (movie_entries ?pf) movies)) = 11 * length movies"
    by blast
  have m': "\<exists>movies body. length movies \<le> 50000
      \<and> snd (generateMoviesSitemap ?pf sample_store)
          = Inr (urlset_open_images @ body @ ''</urlset>'')
      \<and> length (concat (map (movie_entries ?pf) movies)) = 11 * length movies"
    using mb xml by (intro exI [where x = movies] exI [where x = body]) simp
  from p obtain persons pbody where pb: "length persons \<le> 2000"
      "collect (concat (map (person_entries ?pf) persons)) = Inr pbody"
      "xmlp = urlset_open_images @ pbody @ ''</urlset>''"
    by blast
  have p': "\<exists>persons body. length persons \<le> 2000
      \<and> collect (concat (map (person_entries ?pf) persons)) = Inr body
      \<and> snd (generatePersonSitemap ?pf sample_api ''key'')
          = Inr (urlset_open_images @ body @ ''</urlset>'')"
    using pb xmlp by (intro exI [where x = persons] exI [where x = pbody]) simp
  from m' tv f p' show ?thesis by (intro conjI)
qed

section \<open>Failures of the data fetch\<close>


lemma people_first_page_rejects:
  assumes "api (people_address key 1) = Inl e"
  shows "generatePersonSitemap pf api key =
     ([Fetch (people_address key 1), LogError ''Error generating person sitemap:'' e], Inl e)"
proof -
  have "people_pages api key 1 [] = ([Fetch (people_address key 1)], Inl e)"
    using assms by (subst people_pages.simps) (simp add: Let_def)
  then show ?thesis
    by (simp add: generatePersonSitemap_def Let_def)
qed



















end
